theory Spec2Isabelle
  imports Complex_Main "HOL-Library.Word"
begin

section \<open>The function server of \<^verbatim>\<open>src/utils/serve-functions.js\<close>\<close>

text \<open>
  The file serves user-written handler modules over HTTP. This theory embeds its
  functions: \<^verbatim>\<open>handleErr\<close>, \<^verbatim>\<open>buildClientContext\<close>, the directory scan and the
  watcher callback of \<^verbatim>\<open>createHandler\<close>, the request function that \<^verbatim>\<open>createHandler\<close>
  returns, \<^verbatim>\<open>createCallback\<close> and \<^verbatim>\<open>promiseCallback\<close>.

  What the code takes from its runtime and its libraries is a parameter of the model:
  the log prefix \<^verbatim>\<open>NETLIFYDEVERR\<close>, \<^verbatim>\<open>jwtDecode\<close>, \<^verbatim>\<open>findHandler\<close>, \<^verbatim>\<open>findModuleDir\<close>, the file
  system, \<^verbatim>\<open>require\<close> and \<^verbatim>\<open>require.resolve\<close>, \<^verbatim>\<open>querystring.parse\<close>, and the conversion
  between numbers and strings. Calls of \<^verbatim>\<open>console.log\<close> are left out. The HTTP response
  is the list of the operations performed on it, in order, and its methods throw where
  those of \<^verbatim>\<open>http.ServerResponse\<close> do.
\<close>

subsection \<open>JavaScript values\<close>

type_synonym byte = "8 word"
type_synonym path = string

text \<open>
  A JavaScript number is NaN, an infinity or a finite value; only whether it is zero or
  NaN, and its identity, matter to the code. The finite values are modelled as rationals
  (every finite double is one; \<open>+0\<close> and \<open>-0\<close> are both \<open>Fin 0\<close>).
\<close>

datatype jsnum = NaN | PosInf | NegInf | Fin rat

text \<open>
  The values a handler can pass to the completion callback: the primitives, plain data
  objects (an object literal or parsed JSON: its own enumerable properties in
  enumeration order, none of them shadowing a method of \<^verbatim>\<open>Object.prototype\<close>) and
  \<^verbatim>\<open>Error\<close> objects with their name and message. Arrays, functions and buffers are not
  modelled. A thrown exception is such a value too.
\<close>

datatype jsval =
    JUndefined
  | JNull
  | JBool bool
  | JNum jsnum
  | JStr string
  | JObj "(string \<times> jsval) list"
  | JError string string

text \<open>The value a condition sees: \<^verbatim>\<open>if (v)\<close>, \<^verbatim>\<open>!v\<close>, \<^verbatim>\<open>v ? a : b\<close>.\<close>

fun truthy_num :: "jsnum \<Rightarrow> bool" where
  "truthy_num NaN = False"
| "truthy_num PosInf = True"
| "truthy_num NegInf = True"
| "truthy_num (Fin q) = (q \<noteq> 0)"

fun truthy :: "jsval \<Rightarrow> bool" where
  "truthy JUndefined = False"
| "truthy JNull = False"
| "truthy (JBool b) = b"
| "truthy (JNum n) = truthy_num n"
| "truthy (JStr s) = (s \<noteq> [])"
| "truthy (JObj kvs) = True"
| "truthy (JError nm m) = True"

text \<open>\<^verbatim>\<open>typeof v === "string"\<close>.\<close>

fun is_string :: "jsval \<Rightarrow> bool" where
  "is_string (JStr s) = True"
| "is_string v = False"

subsection \<open>Base64, as \<^verbatim>\<open>Buffer\<close> encodes and decodes it\<close>

text \<open>
  \<^verbatim>\<open>buf.toString("base64")\<close> is the encoding of RFC 4648 with padding: three bytes
  become four characters of the alphabet, and a last group of one or two bytes is
  padded with \<^verbatim>\<open>=\<close>.
\<close>

definition base64_alphabet :: string where
  "base64_alphabet =
     ''ABCDEFGHIJKLMNOPQRSTUVWXYZabcdefghijklmnopqrstuvwxyz0123456789+/''"

definition base64_char :: "nat \<Rightarrow> char" where
  "base64_char n = base64_alphabet ! n"

fun base64_encode :: "byte list \<Rightarrow> string" where
  "base64_encode [] = []"
| "base64_encode [a] =
     [base64_char (unat a div 4), base64_char ((unat a mod 4) * 16), CHR ''='', CHR ''='']"
| "base64_encode [a, b] =
     [base64_char (unat a div 4),
      base64_char ((unat a mod 4) * 16 + unat b div 16),
      base64_char ((unat b mod 16) * 4), CHR ''='']"
| "base64_encode (a # b # c # rest) =
     [base64_char (unat a div 4),
      base64_char ((unat a mod 4) * 16 + unat b div 16),
      base64_char ((unat b mod 16) * 4 + unat c div 64),
      base64_char (unat c mod 64)] @ base64_encode rest"

text \<open>
  \<^verbatim>\<open>Buffer.from(s, "base64")\<close> is lenient: it reads up to the first \<^verbatim>\<open>=\<close>, skips every
  character outside the alphabet, takes \<^verbatim>\<open>-\<close> and \<^verbatim>\<open>_\<close> for \<^verbatim>\<open>+\<close> and \<^verbatim>\<open>/\<close>, and drops a
  last group too short for a byte.
\<close>

fun index_of :: "char \<Rightarrow> string \<Rightarrow> nat \<Rightarrow> nat option" where
  "index_of c [] i = None"
| "index_of c (x # xs) i = (if c = x then Some i else index_of c xs (Suc i))"

definition unbase64 :: "char \<Rightarrow> nat option" where
  "unbase64 c =
     (if c = CHR ''-'' then Some 62 else if c = CHR ''_'' then Some 63
      else index_of c base64_alphabet 0)"

fun sextets_to_bytes :: "nat list \<Rightarrow> byte list" where
  "sextets_to_bytes (s1 # s2 # s3 # s4 # rest) =
     [of_nat (s1 * 4 + s2 div 16),
      of_nat ((s2 mod 16) * 16 + s3 div 4),
      of_nat ((s3 mod 4) * 64 + s4)] @ sextets_to_bytes rest"
| "sextets_to_bytes [s1, s2, s3] =
     [of_nat (s1 * 4 + s2 div 16), of_nat ((s2 mod 16) * 16 + s3 div 4)]"
| "sextets_to_bytes [s1, s2] = [of_nat (s1 * 4 + s2 div 16)]"
| "sextets_to_bytes [s1] = []"
| "sextets_to_bytes [] = []"

definition base64_decode :: "string \<Rightarrow> byte list" where
  "base64_decode s =
     sextets_to_bytes (List.map_filter unbase64 (takeWhile (\<lambda>c. c \<noteq> CHR ''='') s))"

subsection \<open>The request and its translation\<close>

text \<open>
  \<^verbatim>\<open>request.body\<close> after the two body parsers: a \<^verbatim>\<open>Buffer\<close> (\<^verbatim>\<open>bodyParser.raw\<close>), a string
  (\<^verbatim>\<open>bodyParser.text\<close>), or anything else (the empty object of a request with no body).
\<close>

datatype request_body = BufferBody "byte list" | StringBody string | NoBody

record request =
  req_path :: string
  req_method :: string
  req_url :: string
  req_headers :: "string \<rightharpoonup> string"
  req_body :: request_body

record lambda_request =
  path :: string
  httpMethod :: string
  queryStringParameters :: "(string \<times> string) list"
  headers :: "string \<rightharpoonup> string"
  body :: string
  isBase64Encoded :: bool

text \<open>Lines 137 to 147: the body and the flag handed to the handler.\<close>

fun translate_body :: "request_body \<Rightarrow> string \<times> bool" where
  "translate_body (BufferBody bytes) = (base64_encode bytes, True)"
| "translate_body (StringBody s) = (s, False)"
| "translate_body NoBody = ([], False)"

text \<open>
  A line terminator, which the \<^verbatim>\<open>.\<close> of a regular expression does not match. Strings are
  lists of 8-bit characters here, so of the four line terminators only LF and CR occur.
\<close>

definition line_terminator :: "char \<Rightarrow> bool" where
  "line_terminator c = (c = CHR 0x0A \<or> c = CHR 0x0D)"

text \<open>\<^verbatim>\<open>url.split(/\?(.+)/)[1]\<close>: the capture of the first match, \<^verbatim>\<open>undefined\<close> with none.\<close>

fun query_of_url :: "string \<Rightarrow> string option" where
  "query_of_url [] = None"
| "query_of_url (c # cs) =
     (if c = CHR ''?'' \<and> (case cs of [] \<Rightarrow> False | d # ds \<Rightarrow> \<not> line_terminator d)
      then Some (takeWhile (\<lambda>d. \<not> line_terminator d) cs)
      else query_of_url cs)"

subsection \<open>The handler and what it does\<close>

text \<open>
  The second argument of the handler: \<^verbatim>\<open>{clientContext: buildClientContext(headers) || {}}\<close>.
  \<open>None\<close> is the empty object.
\<close>

record identity_placeholders =
  url :: string
  token :: string

record client_context =
  identity :: identity_placeholders
  user :: jsval

record lambda_context =
  clientContext :: "client_context option"

text \<open>
  A handler is user code. The request function sees of one call: the calls of the
  completion callback the handler makes before it returns, with their arguments
  \<^verbatim>\<open>(err, lambdaResponse)\<close>; whether it returns or throws, and whether the value returned
  is truthy with a \<^verbatim>\<open>then\<close> that is a function; and what happens after it has returned,
  in order: further calls of the callback, and the settlement of the value returned
  (a reaction registered with \<^verbatim>\<open>then\<close> runs with the value or the reason).
\<close>

text \<open>
  \<open>Returned True\<close> is the return of a thenable (a truthy value whose \<^verbatim>\<open>then\<close> is a
  function), \<open>Returned False\<close> the return of any other value.
\<close>

datatype handler_return = Returned bool | Threw jsval

datatype async_event =
    CallbackCalled jsval jsval
  | Fulfilled jsval
  | Rejected jsval

record handler_run =
  sync_calls :: "(jsval \<times> jsval) list"
  returns :: handler_return
  later :: "async_event list"

type_synonym handler = "lambda_request \<Rightarrow> lambda_context \<Rightarrow> handler_run"

text \<open>
  What \<^verbatim>\<open>require(functionPath)\<close> returns, as far as line 125 looks at it: \<^verbatim>\<open>null\<close> or
  \<^verbatim>\<open>undefined\<close>, or a value whose property \<^verbatim>\<open>handler\<close> is a function or is not.
\<close>

datatype module_exports = ExportsNullish | Exports "handler option"

text \<open>
  What the code takes from outside: the constant \<^verbatim>\<open>NETLIFYDEVERR\<close> of the package
  \<^verbatim>\<open>netlify-cli-logo\<close>; the runtime's conversions between numbers and strings; the
  \<^verbatim>\<open>TypeError\<close> that reading a property of \<^verbatim>\<open>null\<close> throws and the one that
  \<^verbatim>\<open>require(undefined)\<close> throws (their texts depend on the version of Node);
  \<^verbatim>\<open>jwtDecode\<close> and \<^verbatim>\<open>querystring.parse\<close>; \<^verbatim>\<open>require.resolve\<close>; and the evaluation of a
  module file that \<^verbatim>\<open>require\<close> runs on a cache miss, under the \<^verbatim>\<open>module.paths\<close> of that
  moment. A call that throws returns \<open>Inl\<close> of the exception.
\<close>

record runtime =
  NETLIFYDEVERR :: string
  string_to_number :: "string \<Rightarrow> jsnum"
  number_to_string :: "jsnum \<Rightarrow> string"
  null_property_error :: jsval
  require_undefined_error :: jsval
  jwtDecode :: "string \<Rightarrow> jsval + jsval"
  querystring_parse :: "string option \<Rightarrow> (string \<times> string) list"
  require_resolve :: "path \<Rightarrow> jsval + path"
  load_file :: "path option list \<Rightarrow> path \<Rightarrow> jsval + module_exports"

text \<open>\<^verbatim>\<open>Number(v)\<close>: a plain object or an Error converts through \<^verbatim>\<open>"[object Object]"\<close>
  or \<^verbatim>\<open>"Error: ..."\<close> to NaN.\<close>

fun Number :: "runtime \<Rightarrow> jsval \<Rightarrow> jsnum" where
  "Number rt JUndefined = NaN"
| "Number rt JNull = Fin 0"
| "Number rt (JBool b) = (if b then Fin 1 else Fin 0)"
| "Number rt (JNum n) = n"
| "Number rt (JStr s) = string_to_number rt s"
| "Number rt (JObj kvs) = NaN"
| "Number rt (JError nm m) = NaN"

text \<open>\<^verbatim>\<open>String(v)\<close>, the string a value converts to.\<close>

fun string_form :: "runtime \<Rightarrow> jsval \<Rightarrow> string" where
  "string_form rt (JStr s) = s"
| "string_form rt (JBool b) = (if b then ''true'' else ''false'')"
| "string_form rt (JNum n) = number_to_string rt n"
| "string_form rt (JObj kvs) = ''[object Object]''"
| "string_form rt (JError nm m) =
     (if nm = [] then m else if m = [] then nm else nm @ '': '' @ m)"
| "string_form rt JUndefined = ''undefined''"
| "string_form rt JNull = ''null''"

text \<open>
  The method call \<^verbatim>\<open>v.toString()\<close> of line 24: \<^verbatim>\<open>undefined\<close> and \<^verbatim>\<open>null\<close> have no
  properties, so the call throws a \<^verbatim>\<open>TypeError\<close> for them (\<open>Inl\<close>).
\<close>

fun toString :: "runtime \<Rightarrow> jsval \<Rightarrow> jsval + string" where
  "toString rt JUndefined = Inl (null_property_error rt)"
| "toString rt JNull = Inl (null_property_error rt)"
| "toString rt v = Inr (string_form rt v)"

text \<open>
  \<^verbatim>\<open>v | 0\<close>, the conversion to a 32-bit integer: the number is truncated towards zero and
  wrapped; NaN and the infinities give 0.
\<close>

fun to_int32 :: "jsnum \<Rightarrow> int" where
  "to_int32 (Fin q) =
     ((if q < 0 then \<lceil>q\<rceil> else \<lfloor>q\<rfloor>) + 2147483648) mod 4294967296 - 2147483648"
| "to_int32 n = 0"

text \<open>Lines 149 to 156.\<close>

definition lambdaRequest :: "runtime \<Rightarrow> request \<Rightarrow> lambda_request" where
  "lambdaRequest rt rq =
     \<lparr>path = req_path rq,
      httpMethod = req_method rq,
      queryStringParameters = querystring_parse rt (query_of_url (req_url rq)),
      headers = req_headers rq,
      body = fst (translate_body (req_body rq)),
      isBase64Encoded = snd (translate_body (req_body rq))\<rparr>"

subsection \<open>The response\<close>

text \<open>
  The response is an \<^verbatim>\<open>http.ServerResponse\<close>. Its state is the list of the operations
  performed on it that did not throw, in order: the assignment of
  \<^verbatim>\<open>response.statusCode\<close>, \<^verbatim>\<open>setHeader\<close>, \<^verbatim>\<open>write\<close>, \<^verbatim>\<open>end()\<close> and \<^verbatim>\<open>end(data)\<close>.
\<close>

datatype payload = Text string | Binary "byte list"

datatype resp_op =
    SetStatus jsval
  | SetHeader string jsval
  | Write payload
  | End
  | EndWith payload



fun bodies :: "resp_op list \<Rightarrow> payload list" where
  "bodies [] = []"
| "bodies (Write p # ops) = p # bodies ops"
| "bodies (EndWith p # ops) = p # bodies ops"
| "bodies (x # ops) = bodies ops"

fun closes :: "resp_op list \<Rightarrow> nat" where
  "closes [] = 0"
| "closes (End # ops) = Suc (closes ops)"
| "closes (EndWith p # ops) = Suc (closes ops)"
| "closes (x # ops) = closes ops"

text \<open>
  When the methods of the response throw. The head of the response is sent by the first
  \<^verbatim>\<open>write\<close> or \<^verbatim>\<open>end\<close>. Sending it converts \<^verbatim>\<open>statusCode\<close> with \<^verbatim>\<open>| 0\<close> and throws a
  \<^verbatim>\<open>RangeError\<close> unless the result is from 100 to 999; nothing is sent then. Once the head
  is sent, \<^verbatim>\<open>setHeader\<close> throws; before, it throws for a name that is not a token and
  for a value that is \<^verbatim>\<open>undefined\<close> or whose string has a control character other than
  the tabulator. An assignment to \<^verbatim>\<open>statusCode\<close> never throws, nor does a \<^verbatim>\<open>write\<close> or an
  \<^verbatim>\<open>end\<close> on a response that is sent or closed already: the library drops the data of a
  \<^verbatim>\<open>write\<close> after \<^verbatim>\<open>end\<close> and reports it later with an error event. Which bytes the
  library transmits for the data handed to \<^verbatim>\<open>write\<close> (none for a HEAD request and for a
  status code that allows no body) is outside the model. The texts of the errors are
  those of Node 12.
\<close>

definition head_sent :: "resp_op list \<Rightarrow> bool" where
  "head_sent ops = (0 < length (bodies ops) + closes ops)"

definition status_sent :: "runtime \<Rightarrow> jsval \<Rightarrow> int" where
  "status_sent rt v = to_int32 (Number rt v)"

definition accepts_status :: "runtime \<Rightarrow> jsval \<Rightarrow> bool" where
  "accepts_status rt v = (100 \<le> status_sent rt v \<and> status_sent rt v \<le> 999)"

definition invalid_status_error :: "runtime \<Rightarrow> jsval \<Rightarrow> jsval" where
  "invalid_status_error rt v =
     JError ''RangeError [ERR_HTTP_INVALID_STATUS_CODE]''
       (''Invalid status code: '' @ string_form rt v)"

definition token_chars :: string where
  "token_chars =
     ''abcdefghijklmnopqrstuvwxyzABCDEFGHIJKLMNOPQRSTUVWXYZ0123456789-^_!#$%&*+.|~''
     @ [CHR 0x27, CHR 0x60]"

definition valid_header_name :: "string \<Rightarrow> bool" where
  "valid_header_name name = (name \<noteq> [] \<and> list_all (\<lambda>c. c \<in> set token_chars) name)"

definition invalid_header_chars :: string where
  "invalid_header_chars =
     [CHR 0x00, CHR 0x01, CHR 0x02, CHR 0x03, CHR 0x04, CHR 0x05, CHR 0x06, CHR 0x07,
      CHR 0x08, CHR 0x0A, CHR 0x0B, CHR 0x0C, CHR 0x0D, CHR 0x0E, CHR 0x0F,
      CHR 0x10, CHR 0x11, CHR 0x12, CHR 0x13, CHR 0x14, CHR 0x15, CHR 0x16, CHR 0x17,
      CHR 0x18, CHR 0x19, CHR 0x1A, CHR 0x1B, CHR 0x1C, CHR 0x1D, CHR 0x1E, CHR 0x1F,
      CHR 0x7F]"

definition valid_header_value :: "runtime \<Rightarrow> jsval \<Rightarrow> bool" where
  "valid_header_value rt v =
     (if v = JUndefined then False
      else list_all (\<lambda>c. c \<notin> set invalid_header_chars) (string_form rt v))"


text \<open>The exception of \<^verbatim>\<open>response.setHeader(name, v)\<close>, if it throws.\<close>

definition setHeader_error :: "runtime \<Rightarrow> bool \<Rightarrow> string \<Rightarrow> jsval \<Rightarrow> jsval option" where
  "setHeader_error rt sent name v =
     (if sent
      then Some (JError ''Error [ERR_HTTP_HEADERS_SENT]''
                   ''Cannot set headers after they are sent to the client'')
      else if valid_header_name name
      then (if valid_header_value rt v then None
            else if v = JUndefined
            then Some (JError ''TypeError [ERR_HTTP_INVALID_HEADER_VALUE]''
                         (''Invalid value for header '' @ name))
            else Some (JError ''TypeError [ERR_INVALID_CHAR]''
                         (''Invalid character in header content '' @ name)))
      else Some (JError ''TypeError [ERR_INVALID_HTTP_TOKEN]''
                   (''Header name must be a valid HTTP token '' @ name)))"

text \<open>
  \<^verbatim>\<open>response.write(data); response.end()\<close> on a response whose status code is \<open>status\<close>
  and on which \<open>ops\<close> have been performed: the exception, if \<^verbatim>\<open>write\<close> throws, and the
  operations performed.
\<close>

definition write_end ::
  "runtime \<Rightarrow> resp_op list \<Rightarrow> jsval \<Rightarrow> payload \<Rightarrow> jsval option \<times> resp_op list" where
  "write_end rt ops status data =
     (if head_sent ops then (None, [Write data, End])
      else if accepts_status rt status then (None, [Write data, End])
      else (Some (invalid_status_error rt status), []))"

text \<open>
  \<^verbatim>\<open>handleErr\<close>, lines 21 to 28, on a response on which \<open>ops\<close> have been performed: the
  exception that leaves it, if any, and the operations it performs.
\<close>

definition handleErr ::
  "runtime \<Rightarrow> resp_op list \<Rightarrow> jsval \<Rightarrow> jsval option \<times> resp_op list" where
  "handleErr rt ops err =
     (case toString rt err of
        Inl e \<Rightarrow> (Some e, [SetStatus (JNum (Fin 500))])
      | Inr msg \<Rightarrow>
          (case write_end rt ops (JNum (Fin 500))
                  (Text (NETLIFYDEVERR rt @ '' Function invocation failed: '' @ msg)) of
             (x, performed) \<Rightarrow> (x, SetStatus (JNum (Fin 500)) # performed)))"

subsection \<open>\<^verbatim>\<open>buildClientContext\<close>, lines 37 to 55\<close>

text \<open>\<^verbatim>\<open>s.split(sep)\<close> for a separator of one character.\<close>

fun split_on :: "char \<Rightarrow> string \<Rightarrow> string list" where
  "split_on sep [] = [[]]"
| "split_on sep (c # cs) =
     (if c = sep then [] # split_on sep cs
      else (case split_on sep cs of
              [] \<Rightarrow> [[c]]
            | part # parts \<Rightarrow> (c # part) # parts))"

definition emulated_identity :: identity_placeholders where
  "emulated_identity =
     \<lparr>url = ''NETLIFY_LAMBDA_LOCALLY_EMULATED_IDENTITY_URL'',
      token = ''NETLIFY_LAMBDA_LOCALLY_EMULATED_IDENTITY_TOKEN''\<rparr>"

text \<open>
  \<open>None\<close> is the \<^verbatim>\<open>undefined\<close> that the function returns on each of its three early
  exits; the \<^verbatim>\<open>catch\<close> of line 52 is the \<open>Inl\<close> case.
\<close>

definition buildClientContext ::
  "runtime \<Rightarrow> (string \<rightharpoonup> string) \<Rightarrow> client_context option" where
  "buildClientContext rt hdrs =
     (case hdrs ''authorization'' of
        None \<Rightarrow> None
      | Some authorization \<Rightarrow>
          if authorization = [] then None
          else (case split_on CHR '' '' authorization of
                  [p0, p1] \<Rightarrow>
                    if p0 = ''Bearer''
                    then (case jwtDecode rt p1 of
                            Inl e \<Rightarrow> None
                          | Inr claims \<Rightarrow>
                              Some \<lparr>identity = emulated_identity, user = claims\<rparr>)
                    else None
                | _ \<Rightarrow> None))"

subsection \<open>The scan of \<^verbatim>\<open>createHandler\<close>, lines 58 to 79\<close>

record function_entry =
  functionPath :: path
  moduleDir :: "path option"

text \<open>
  The file system and the two finders of \<^verbatim>\<open>./finders\<close>, through the calls the scan makes:
  \<^verbatim>\<open>fs.readdirSync\<close>, \<^verbatim>\<open>path.resolve(path.join(dir, file))\<close>, \<^verbatim>\<open>findHandler\<close>
  (\<open>None\<close> is a falsy result), \<^verbatim>\<open>findModuleDir\<close> and \<^verbatim>\<open>fs.lstatSync(p).isDirectory()\<close>.
\<close>

record filesystem =
  readdirSync :: "path \<Rightarrow> string list"
  resolve_join :: "path \<Rightarrow> string \<Rightarrow> path"
  findHandler :: "path \<Rightarrow> path option"
  findModuleDir :: "path \<Rightarrow> path option"
  isDirectory :: "path \<Rightarrow> bool"

text \<open>
  \<^verbatim>\<open>path.extname\<close>: from the last dot of the last segment, and empty when there is no
  dot, when the dot is the first character of the segment, and for \<^verbatim>\<open>..\<close>.
\<close>

definition extname :: "path \<Rightarrow> string" where
  "extname p =
     (let base = rev (takeWhile (\<lambda>c. c \<noteq> CHR ''/'') (rev p));
          ext = rev (takeWhile (\<lambda>c. c \<noteq> CHR ''.'') (rev base))
      in if CHR ''.'' \<in> set base \<and> Suc (length ext) < length base \<and> base \<noteq> ''..''
         then CHR ''.'' # ext else [])"

text \<open>\<^verbatim>\<open>file.replace(/\.js$/, "")\<close>.\<close>

definition strip_js :: "string \<Rightarrow> string" where
  "strip_js file =
     (if 3 \<le> length file \<and> drop (length file - 3) file = ''.js''
      then take (length file - 3) file else file)"

text \<open>
  The object \<^verbatim>\<open>functions\<close>: its own properties. The body of the \<^verbatim>\<open>forEach\<close> of line 59
  for one entry of the directory, and the loop. (An entry named \<^verbatim>\<open>__proto__\<close>, whose
  assignment would replace the prototype of the object, is not modelled.)
\<close>

type_synonym registry = "string \<rightharpoonup> function_entry"

definition scan_entry :: "filesystem \<Rightarrow> path \<Rightarrow> registry \<Rightarrow> string \<Rightarrow> registry" where
  "scan_entry fs dir fns file =
     (if dir = ''node_modules'' then fns
      else
        let fp = resolve_join fs dir file in
        (case findHandler fs fp of
           None \<Rightarrow> fns
         | Some handlerPath \<Rightarrow>
             if handlerPath = [] then fns
             else if extname fp = ''.js''
             then fns(strip_js file \<mapsto> \<lparr>functionPath = fp, moduleDir = findModuleDir fs fp\<rparr>)
             else if isDirectory fs fp
             then fns(file \<mapsto> \<lparr>functionPath = handlerPath, moduleDir = findModuleDir fs fp\<rparr>)
             else fns))"

definition scan_functions :: "filesystem \<Rightarrow> path \<Rightarrow> registry" where
  "scan_functions fs dir = foldl (scan_entry fs dir) Map.empty (readdirSync fs dir)"

subsection \<open>The module system: \<^verbatim>\<open>module.paths\<close> and \<^verbatim>\<open>require.cache\<close>\<close>

record node_state =
  module_paths :: "path option list"
  require_cache :: "path \<rightharpoonup> module_exports"

text \<open>
  \<^verbatim>\<open>require(p)\<close>: a \<^verbatim>\<open>TypeError\<close> for \<^verbatim>\<open>undefined\<close>; otherwise the path is resolved, the
  cache answers if it holds the resolved path, and the file is evaluated and cached if
  not. An exception leaves the cache as it was.
\<close>

definition require ::
  "runtime \<Rightarrow> path option \<Rightarrow> node_state \<Rightarrow> (jsval + module_exports) \<times> node_state" where
  "require rt p st =
     (case p of
        None \<Rightarrow> (Inl (require_undefined_error rt), st)
      | Some fp \<Rightarrow>
          (case require_resolve rt fp of
             Inl e \<Rightarrow> (Inl e, st)
           | Inr resolved \<Rightarrow>
               (case require_cache st resolved of
                  Some m \<Rightarrow> (Inr m, st)
                | None \<Rightarrow>
                    (case load_file rt (module_paths st) resolved of
                       Inl e \<Rightarrow> (Inl e, st)
                     | Inr m \<Rightarrow>
                         (Inr m, st\<lparr>require_cache := (require_cache st)(resolved \<mapsto> m)\<rparr>)))))"

text \<open>
  The watcher's callback \<^verbatim>\<open>clearCache(action)()\<close>, lines 83 to 93, for the entry \<open>fn\<close>.
  The result is the exception that leaves the callback, if any, and the state it leaves.
\<close>

definition clearCache ::
  "runtime \<Rightarrow> function_entry \<Rightarrow> node_state \<Rightarrow> jsval option \<times> node_state" where
  "clearCache rt fn st =
     (let before = module_paths st;
          st1 = st\<lparr>module_paths := [moduleDir fn]\<rparr>
      in case require_resolve rt (functionPath fn) of
           Inl e \<Rightarrow> (Some e, st1)
         | Inr resolved \<Rightarrow>
             (None, st1\<lparr>require_cache := (require_cache st1)(resolved := None),
                        module_paths := before\<rparr>))"

text \<open>
  Lines 120 to 135 of the request function: the handler of the module, or the exception
  that the \<^verbatim>\<open>catch\<close> hands to \<^verbatim>\<open>handleErr\<close>. The path is \<open>None\<close> when \<^verbatim>\<open>functionPath\<close>
  is \<^verbatim>\<open>undefined\<close>.
\<close>

definition load_handler ::
  "runtime \<Rightarrow> path option \<Rightarrow> path option \<Rightarrow> node_state \<Rightarrow> (jsval + handler) \<times> node_state" where
  "load_handler rt fp md st =
     (let before = module_paths st;
          st1 = st\<lparr>module_paths := [md]\<rparr>
      in case require rt fp st1 of
           (Inl e, st2) \<Rightarrow> (Inl e, st2\<lparr>module_paths := before\<rparr>)
         | (Inr ExportsNullish, st2) \<Rightarrow>
             (Inl (null_property_error rt), st2\<lparr>module_paths := before\<rparr>)
         | (Inr (Exports None), st2) \<Rightarrow>
             (Inl (JError ''Error''
                    (''function '' @ (case fp of None \<Rightarrow> ''undefined'' | Some f \<Rightarrow> f)
                       @ '' must export a function named handler'')),
              st2\<lparr>module_paths := before\<rparr>)
         | (Inr (Exports (Some h)), st2) \<Rightarrow> (Inr h, st2\<lparr>module_paths := before\<rparr>))"

subsection \<open>The dispatcher, lines 107 to 119\<close>

definition starts_with :: "string \<Rightarrow> string \<Rightarrow> bool" where
  "starts_with pre s = (take (length pre) s = pre)"

text \<open>
  \<^verbatim>\<open>request.path.replace(/^\/.netlify\/functions/, "")\<close>: the dot of the expression is not
  escaped, so it stands for one character that is not a line terminator.
\<close>

definition cleanPath :: "string \<Rightarrow> string" where
  "cleanPath p =
     (case p of
        c0 # c1 # rest \<Rightarrow>
          if c0 = CHR ''/'' \<and> \<not> line_terminator c1 \<and> starts_with ''netlify/functions'' rest
          then drop (length ''netlify/functions'') rest
          else p
      | _ \<Rightarrow> p)"

text \<open>
  \<^verbatim>\<open>cleanPath.split("/").filter(e => e)[0]\<close>: the first segment that is not empty, and
  \<open>None\<close> for the \<^verbatim>\<open>undefined\<close> of a path with none.
\<close>

definition func_of :: "string \<Rightarrow> string option" where
  "func_of p =
     (case filter (\<lambda>e. e \<noteq> []) (split_on CHR ''/'' (cleanPath p)) of
        [] \<Rightarrow> None
      | f # _ \<Rightarrow> Some f)"

text \<open>
  \<^verbatim>\<open>functions[func]\<close>. The object is created by the literal \<^verbatim>\<open>{}\<close>, so a name that is not
  an own property is looked up in \<^verbatim>\<open>Object.prototype\<close>, every property of which is a
  function or an object: a truthy value with no \<^verbatim>\<open>functionPath\<close> and no \<^verbatim>\<open>moduleDir\<close>.
  The key of \<^verbatim>\<open>undefined\<close> is the string \<^verbatim>\<open>"undefined"\<close>.
\<close>

definition object_prototype_names :: "string list" where
  "object_prototype_names =
     [''constructor'', ''__defineGetter__'', ''__defineSetter__'', ''hasOwnProperty'',
      ''__lookupGetter__'', ''__lookupSetter__'', ''isPrototypeOf'',
      ''propertyIsEnumerable'', ''toString'', ''valueOf'', ''__proto__'',
      ''toLocaleString'']"

datatype lookup = Own function_entry | Inherited | Missing

definition functions_lookup :: "registry \<Rightarrow> string option \<Rightarrow> lookup" where
  "functions_lookup fns func =
     (let key = (case func of None \<Rightarrow> ''undefined'' | Some f \<Rightarrow> f)
      in case fns key of
           Some entry \<Rightarrow> Own entry
         | None \<Rightarrow> if key \<in> set object_prototype_names then Inherited else Missing)"

subsection \<open>\<^verbatim>\<open>createCallback\<close>, lines 176 to 215\<close>

text \<open>The decimal numeral of an index, for the keys of a string.\<close>

fun decimal :: "nat \<Rightarrow> string" where
  "decimal n =
     (if n < 10 then [''0123456789'' ! n]
      else decimal (n div 10) @ [''0123456789'' ! (n mod 10)])"

text \<open>
  \<^verbatim>\<open>v.key\<close> for a value \<open>v\<close> that is neither \<^verbatim>\<open>null\<close> nor \<^verbatim>\<open>undefined\<close>, and a key that is
  none of the properties every string or Error has: the four keys the callback reads.
\<close>

fun property :: "jsval \<Rightarrow> string \<Rightarrow> jsval" where
  "property (JObj kvs) k = (case map_of kvs k of None \<Rightarrow> JUndefined | Some v \<Rightarrow> v)"
| "property v k = JUndefined"

text \<open>
  \<^verbatim>\<open>for (const key in v)\<close> with \<^verbatim>\<open>v[key]\<close>: the properties of an object, the characters of
  a string by index, nothing for any other value.
\<close>

fun for_in :: "jsval \<Rightarrow> (string \<times> jsval) list" where
  "for_in (JObj kvs) = kvs"
| "for_in (JStr s) = map (\<lambda>i. (decimal i, JStr [s ! i])) [0..<length s]"
| "for_in v = []"

text \<open>The string of a value that is one.\<close>

fun string_of :: "jsval \<Rightarrow> string" where
  "string_of (JStr s) = s"
| "string_of v = []"

text \<open>
  The loop of lines 205 to 207 over the properties of \<^verbatim>\<open>headers\<close>; it ends at the first
  \<^verbatim>\<open>setHeader\<close> that throws.
\<close>

fun set_headers ::
  "runtime \<Rightarrow> bool \<Rightarrow> (string \<times> jsval) list \<Rightarrow> jsval option \<times> resp_op list" where
  "set_headers rt sent [] = (None, [])"
| "set_headers rt sent ((name, v) # kvs) =
     (case setHeader_error rt sent name v of
        Some e \<Rightarrow> (Some e, [])
      | None \<Rightarrow>
          (case set_headers rt sent kvs of (x, performed) \<Rightarrow> (x, SetHeader name v # performed)))"

text \<open>
  The callback, applied to \<^verbatim>\<open>(err, lambdaResponse)\<close> when \<open>ops\<close> have been performed on the
  response: the exception that leaves the callback, if any, and the operations it
  performs. Line 188 throws a \<^verbatim>\<open>TypeError\<close> when \<^verbatim>\<open>lambdaResponse\<close> is \<^verbatim>\<open>null\<close>; lines 206
  and 208 throw when the response does.
\<close>

definition createCallback ::
  "runtime \<Rightarrow> resp_op list \<Rightarrow> jsval \<Rightarrow> jsval \<Rightarrow> jsval option \<times> resp_op list" where
  "createCallback rt ops err lambdaResponse =
     (if truthy err then handleErr rt ops err
      else if lambdaResponse = JUndefined
      then handleErr rt ops
             (JStr ''lambda response was undefined. check your function code again.'')
      else if lambdaResponse = JNull then (Some (null_property_error rt), [])
      else if \<not> truthy_num (Number rt (property lambdaResponse ''statusCode''))
      then handleErr rt ops (JStr ''Incorrect function response statusCode'')
      else if \<not> is_string (property lambdaResponse ''body'')
      then handleErr rt ops (JStr ''Incorrect function response body'')
      else
        (case set_headers rt (head_sent ops) (for_in (property lambdaResponse ''headers'')) of
           (Some e, hs) \<Rightarrow> (Some e, SetStatus (property lambdaResponse ''statusCode'') # hs)
         | (None, hs) \<Rightarrow>
             (case write_end rt ops (property lambdaResponse ''statusCode'')
                     (if truthy (property lambdaResponse ''isBase64Encoded'')
                      then Binary (base64_decode (string_of (property lambdaResponse ''body'')))
                      else Text (string_of (property lambdaResponse ''body''))) of
                (x, performed) \<Rightarrow>
                  (x, SetStatus (property lambdaResponse ''statusCode'') # hs @ performed))))"

subsection \<open>The invocation, lines 158 to 173, and \<^verbatim>\<open>promiseCallback\<close>, lines 219 to 233\<close>

text \<open>The error of line 167.\<close>

definition both_error :: jsval where
  "both_error =
     JError ''Error''
       (''Error: your function seems to be using both a callback and returning a promise ''
        @ ''(aka async function). This is invalid, pick one. (Hint: async!)'')"

text \<open>
  What one invocation leaves: the operations on the response, the exception that leaves
  the request function, if any, and the exceptions thrown later, in a callback of the
  event loop or in a reaction of the promise.
\<close>

record invocation =
  response_ops :: "resp_op list"
  thrown :: "jsval option"
  thrown_later :: "jsval list"

text \<open>
  The calls of the callback while the handler runs, on a response on which \<open>ops\<close> have
  been performed: the operations performed in all, the flag \<^verbatim>\<open>callbackWasCalled\<close>, and
  the exception of a call that throws (the handler is taken not to catch it, so it makes
  no further call).
\<close>

fun run_sync ::
  "runtime \<Rightarrow> resp_op list \<Rightarrow> (jsval \<times> jsval) list \<Rightarrow> resp_op list \<times> bool \<times> jsval option" where
  "run_sync rt ops [] = (ops, False, None)"
| "run_sync rt ops ((err, res) # calls) =
     (case createCallback rt ops err res of
        (Some x, performed) \<Rightarrow> (ops @ performed, True, Some x)
      | (None, performed) \<Rightarrow>
          (case run_sync rt (ops @ performed) calls of (ops', called, x) \<Rightarrow> (ops', True, x)))"

text \<open>
  What happens after the request function has returned. \<open>registered\<close> says whether
  \<^verbatim>\<open>promiseCallback\<close> has called \<^verbatim>\<open>then\<close>: the two reactions call the callback with
  \<^verbatim>\<open>(null, data)\<close> and with \<^verbatim>\<open>(err, null)\<close>. The result is the operations performed in
  all and the exceptions that left a call of the callback.
\<close>

fun fired :: "bool \<Rightarrow> async_event \<Rightarrow> (jsval \<times> jsval) option" where
  "fired registered (CallbackCalled err res) = Some (err, res)"
| "fired registered (Fulfilled data) = (if registered then Some (JNull, data) else None)"
| "fired registered (Rejected err) = (if registered then Some (err, JNull) else None)"

fun run_later ::
  "runtime \<Rightarrow> bool \<Rightarrow> resp_op list \<Rightarrow> async_event list \<Rightarrow> resp_op list \<times> jsval list" where
  "run_later rt registered ops [] = (ops, [])"
| "run_later rt registered ops (ev # evs) =
     (case fired registered ev of
        None \<Rightarrow> run_later rt registered ops evs
      | Some (err, res) \<Rightarrow>
          (case createCallback rt ops err res of
             (x, performed) \<Rightarrow>
               (case run_later rt registered (ops @ performed) evs of
                  (ops', xs) \<Rightarrow> (ops', (case x of None \<Rightarrow> xs | Some e \<Rightarrow> e # xs)))))"

definition finish ::
  "runtime \<Rightarrow> handler_run \<Rightarrow> resp_op list \<Rightarrow> jsval option \<Rightarrow> bool \<Rightarrow> invocation" where
  "finish rt run ops x registered =
     (case run_later rt registered ops (later run) of
        (ops', xs) \<Rightarrow> \<lparr>response_ops = ops', thrown = x, thrown_later = xs\<rparr>)"

text \<open>
  The call of the handler on a response on which nothing has been performed, the guard
  of line 166 and \<^verbatim>\<open>promiseCallback\<close>, which registers the reactions when the value
  returned is truthy and its \<^verbatim>\<open>then\<close> is a function.
\<close>

definition invoke :: "runtime \<Rightarrow> handler_run \<Rightarrow> invocation" where
  "invoke rt run =
     (case run_sync rt [] (sync_calls run) of
        (ops, callbackWasCalled, aborted) \<Rightarrow>
          (case aborted of
             Some x \<Rightarrow> finish rt run ops (Some x) False
           | None \<Rightarrow>
               (case returns run of
                  Threw x \<Rightarrow> finish rt run ops (Some x) False
                | Returned thenable \<Rightarrow>
                    if callbackWasCalled \<and> thenable
                    then finish rt run ops (Some both_error) False
                    else finish rt run ops None thenable)))"


subsection \<open>The request function, lines 107 to 216\<close>

text \<open>
  The function that \<^verbatim>\<open>createHandler\<close> returns, for the registry \<open>fns\<close>: the answer to an
  unknown name, the load, whose exception the \<^verbatim>\<open>catch\<close> hands to \<^verbatim>\<open>handleErr\<close>, and the
  invocation of the handler on the translated request. What the handler's own code does
  to the module system is not modelled.
\<close>

definition not_found :: "resp_op list" where
  "not_found = [SetStatus (JNum (Fin 404)), EndWith (Text ''Function not found...'')]"

definition serve ::
  "runtime \<Rightarrow> registry \<Rightarrow> request \<Rightarrow> node_state \<Rightarrow> invocation \<times> node_state" where
  "serve rt fns rq st =
     (case functions_lookup fns (func_of (req_path rq)) of
        Missing \<Rightarrow> (\<lparr>response_ops = not_found, thrown = None, thrown_later = []\<rparr>, st)
      | found \<Rightarrow>
          (case load_handler rt
                  (case found of Own entry \<Rightarrow> Some (functionPath entry) | _ \<Rightarrow> None)
                  (case found of Own entry \<Rightarrow> moduleDir entry | _ \<Rightarrow> None) st of
             (Inl error, st') \<Rightarrow>
               (case handleErr rt [] error of
                  (x, ops) \<Rightarrow> (\<lparr>response_ops = ops, thrown = x, thrown_later = []\<rparr>, st'))
           | (Inr h, st') \<Rightarrow>
               (invoke rt
                  (h (lambdaRequest rt rq)
                     \<lparr>clientContext = buildClientContext rt (req_headers rq)\<rparr>),
                st')))"

subsection \<open>Values for the closed examples\<close>

text \<open>
  A runtime in which no path resolves and \<^verbatim>\<open>jwtDecode\<close> decodes one token, \<^verbatim>\<open>e30.e30.\<close>
  (the header and the payload are both \<^verbatim>\<open>{}\<close>), to the empty object; a well-formed
  result; and a request. The examples below convert no string to a number, and the
  string of a number stands in no result they state.
\<close>

definition example_runtime :: runtime where
  "example_runtime =
     \<lparr>NETLIFYDEVERR = ''NETLIFYDEVERR'',
      string_to_number = (\<lambda>s. NaN),
      number_to_string = (\<lambda>n. ''NaN''),
      null_property_error = JError ''TypeError'' ''Cannot read property of null'',
      require_undefined_error =
        JError ''TypeError'' ''The id argument must be of type string. Received undefined'',
      jwtDecode = (\<lambda>t. if t = ''e30.e30.'' then Inr (JObj [])
                        else Inl (JError ''InvalidTokenError'' ''Invalid token specified'')),
      querystring_parse = (\<lambda>q. []),
      require_resolve = (\<lambda>p. Inl (JError ''Error'' (''Cannot find module '' @ p))),
      load_file = (\<lambda>paths p. Inl (JError ''Error'' (''Cannot find module '' @ p)))\<rparr>"

definition ok_response :: jsval where
  "ok_response = JObj [(''statusCode'', JNum (Fin 200)), (''body'', JStr ''ok'')]"

definition example_request :: request where
  "example_request =
     \<lparr>req_path = ''/hello'', req_method = ''POST'', req_url = ''/hello?a=1'',
      req_headers = [''authorization'' \<mapsto> ''Bearer e30.e30.''],
      req_body = BufferBody [1, 2, 3, 255]\<rparr>"


definition example_filesystem :: filesystem where
  "example_filesystem =
     \<lparr>readdirSync = (\<lambda>dir. [''hello.js'', ''node_modules'']),
      resolve_join = (\<lambda>dir file. ''/site/'' @ dir @ ''/'' @ file),
      findHandler =
        (\<lambda>p. if p = ''/site/functions/hello.js'' then Some p
             else if p = ''/site/functions/node_modules''
             then Some ''/site/functions/node_modules/node_modules.js''
             else None),
      findModuleDir = (\<lambda>p. Some ''/site''),
      isDirectory = (\<lambda>p. p = ''/site/functions/node_modules'')\<rparr>"

definition hello_entry :: function_entry where
  "hello_entry = \<lparr>functionPath = ''/site/functions/hello.js'', moduleDir = Some ''/site''\<rparr>"

definition example_state :: node_state where
  "example_state = \<lparr>module_paths = [Some ''/app/node_modules''], require_cache = Map.empty\<rparr>"

section \<open>Properties\<close>

subsection \<open>Base64 round trip\<close>

lemma index_of_nth:
  "distinct xs \<Longrightarrow> n < length xs \<Longrightarrow> index_of (xs ! n) xs i = Some (i + n)"
proof (induction xs arbitrary: n i)
  case Nil
  then show ?case by simp
next
  case (Cons x xs)
  show ?case
  proof (cases n)
    case 0
    then show ?thesis by simp
  next
    case (Suc m)
    with Cons.prems have "xs ! m \<noteq> x" "m < length xs" "distinct xs"
      by auto
    with Cons.IH [of m "Suc i"] Suc show ?thesis by simp
  qed
qed

lemma distinct_base64_alphabet: "distinct base64_alphabet"
  by (simp add: base64_alphabet_def)

lemma length_base64_alphabet: "length base64_alphabet = 64"
  by (simp add: base64_alphabet_def)

lemma base64_alphabet_specials:
  "CHR ''-'' \<notin> set base64_alphabet" "CHR ''_'' \<notin> set base64_alphabet"
  "CHR ''='' \<notin> set base64_alphabet"
  by (simp_all add: base64_alphabet_def)

lemma unbase64_base64_char:
  assumes "n < 64"
  shows "unbase64 (base64_char n) = Some n"
proof -
  from assms have mem: "base64_alphabet ! n \<in> set base64_alphabet"
    by (simp add: length_base64_alphabet)
  with base64_alphabet_specials have "base64_alphabet ! n \<noteq> CHR ''-''"
    "base64_alphabet ! n \<noteq> CHR ''_''" by metis+
  with assms index_of_nth [OF distinct_base64_alphabet, of n 0] show ?thesis
    by (simp add: unbase64_def base64_char_def length_base64_alphabet)
qed

lemma base64_char_not_pad:
  assumes "n < 64"
  shows "base64_char n \<noteq> CHR ''=''"
proof -
  from assms have "base64_alphabet ! n \<in> set base64_alphabet"
    by (simp add: length_base64_alphabet)
  with base64_alphabet_specials show ?thesis
    unfolding base64_char_def by metis
qed

lemma decode_step:
  assumes "n < 64"
  shows "List.map_filter unbase64 (takeWhile (\<lambda>c. c \<noteq> CHR ''='') (base64_char n # cs)) =
         n # List.map_filter unbase64 (takeWhile (\<lambda>c. c \<noteq> CHR ''='') cs)"
  using assms by (simp add: List.map_filter_simps unbase64_base64_char base64_char_not_pad)

lemma decode_pad:
  "List.map_filter unbase64 (takeWhile (\<lambda>c. c \<noteq> CHR ''='') (CHR ''='' # cs)) = []"
  by (simp add: List.map_filter_simps)

lemma unat_byte_less: "unat (a :: byte) < 256"
  using unsigned_less [where 'a = nat, of a] by simp

lemma base64_round_trip: "base64_decode (base64_encode bytes) = bytes"
proof (induction bytes rule: base64_encode.induct)
  case 1
  show ?case by (simp add: base64_decode_def List.map_filter_simps)
next
  case (2 a)
  have a: "unat a < 256" by (rule unat_byte_less)
  have s1: "unat a div 4 < 64" and s2: "(unat a mod 4) * 16 < 64"
    using a by simp_all
  have b1: "unat a div 4 * 4 + unat a mod 4 * 16 div 16 = unat a" by simp
  have "base64_decode (base64_encode [a]) =
        sextets_to_bytes [unat a div 4, (unat a mod 4) * 16]"
    unfolding base64_decode_def
    by (simp only: base64_encode.simps decode_step [OF s1] decode_step [OF s2] decode_pad)
  also have "\<dots> = [of_nat (unat a)]"
    by (simp only: sextets_to_bytes.simps b1)
  finally show ?case by simp
next
  case (3 a b)
  have a: "unat a < 256" and b: "unat b < 256" by (rule unat_byte_less)+
  have s1: "unat a div 4 < 64"
    and s2: "(unat a mod 4) * 16 + unat b div 16 < 64"
    and s3: "(unat b mod 16) * 4 < 64"
    using a b by simp_all
  have b1: "unat a div 4 * 4 + (unat a mod 4 * 16 + unat b div 16) div 16 = unat a"
    using b by simp
  have b2: "(unat a mod 4 * 16 + unat b div 16) mod 16 * 16 + unat b mod 16 * 4 div 4 = unat b"
    using b by simp
  have "base64_decode (base64_encode [a, b]) =
        sextets_to_bytes
          [unat a div 4, (unat a mod 4) * 16 + unat b div 16, (unat b mod 16) * 4]"
    unfolding base64_decode_def
    by (simp only: base64_encode.simps decode_step [OF s1] decode_step [OF s2]
        decode_step [OF s3] decode_pad)
  also have "\<dots> = [of_nat (unat a), of_nat (unat b)]"
    by (simp only: sextets_to_bytes.simps b1 b2)
  finally show ?case by simp
next
  case (4 a b c rest)
  have a: "unat a < 256" and b: "unat b < 256" and c: "unat c < 256"
    by (rule unat_byte_less)+
  have s1: "unat a div 4 < 64"
    and s2: "(unat a mod 4) * 16 + unat b div 16 < 64"
    and s3: "(unat b mod 16) * 4 + unat c div 64 < 64"
    and s4: "unat c mod 64 < 64"
    using a b c by simp_all
  have b1: "unat a div 4 * 4 + (unat a mod 4 * 16 + unat b div 16) div 16 = unat a"
    using b by simp
  have b2: "(unat a mod 4 * 16 + unat b div 16) mod 16 * 16
            + (unat b mod 16 * 4 + unat c div 64) div 4 = unat b"
    using b c by simp
  have b3: "(unat b mod 16 * 4 + unat c div 64) mod 4 * 64 + unat c mod 64 = unat c"
    using c by simp
  have "base64_decode (base64_encode (a # b # c # rest)) =
        sextets_to_bytes
          (unat a div 4 # ((unat a mod 4) * 16 + unat b div 16)
            # ((unat b mod 16) * 4 + unat c div 64) # (unat c mod 64)
            # List.map_filter unbase64
                (takeWhile (\<lambda>c. c \<noteq> CHR ''='') (base64_encode rest)))"
    unfolding base64_decode_def
    by (simp only: base64_encode.simps append_Cons append_Nil decode_step [OF s1]
        decode_step [OF s2] decode_step [OF s3] decode_step [OF s4])
  also have "\<dots> = [of_nat (unat a), of_nat (unat b), of_nat (unat c)]
                    @ base64_decode (base64_encode rest)"
    unfolding base64_decode_def
    by (simp only: sextets_to_bytes.simps b1 b2 b3)
  finally show ?case using "4.IH" by simp
qed

lemma base64_encode_example: "base64_encode [1, 2, 3, 255] = ''AQID/w==''"
  unfolding base64_encode.simps base64_char_def base64_alphabet_def by simp

subsection \<open>The inbound body\<close>

text \<open>
  Claim C5. Whatever the rest of the request is: a body that is a \<^verbatim>\<open>Buffer\<close> reaches the
  handler as the base64 text of its bytes with \<^verbatim>\<open>isBase64Encoded\<close> true, and decoding
  that text gives the bytes back; a body that is a string reaches it unchanged with the
  flag false; any other body reaches it as the empty string with the flag false.
\<close>

theorem C5_inbound_body:
  "isBase64Encoded (lambdaRequest rt (rq\<lparr>req_body := BufferBody bytes\<rparr>)) = True
   \<and> body (lambdaRequest rt (rq\<lparr>req_body := BufferBody bytes\<rparr>)) = base64_encode bytes
   \<and> base64_decode (body (lambdaRequest rt (rq\<lparr>req_body := BufferBody bytes\<rparr>))) = bytes
   \<and> body (lambdaRequest rt (rq\<lparr>req_body := StringBody s\<rparr>)) = s
   \<and> isBase64Encoded (lambdaRequest rt (rq\<lparr>req_body := StringBody s\<rparr>)) = False
   \<and> body (lambdaRequest rt (rq\<lparr>req_body := NoBody\<rparr>)) = []
   \<and> isBase64Encoded (lambdaRequest rt (rq\<lparr>req_body := NoBody\<rparr>)) = False"
  by (simp add: lambdaRequest_def base64_round_trip)

lemma inbound_body_example:
  "body (lambdaRequest example_runtime example_request) = ''AQID/w==''
   \<and> isBase64Encoded (lambdaRequest example_runtime example_request)"
  by (simp add: lambdaRequest_def example_request_def base64_char_def base64_alphabet_def)

subsection \<open>The client context\<close>

lemma split_on_no_sep: "sep \<notin> set s \<Longrightarrow> split_on sep s = [s]"
  by (induction s) auto

lemma split_on_append_sep:
  "sep \<notin> set s \<Longrightarrow> split_on sep (s @ sep # t) = s # split_on sep t"
  by (induction s) auto

lemma split_bearer:
  assumes "CHR '' '' \<notin> set t"
  shows "split_on CHR '' '' (''Bearer '' @ t) = [''Bearer'', t]"
proof -
  have "split_on CHR '' '' (''Bearer'' @ CHR '' '' # t) = ''Bearer'' # split_on CHR '' '' t"
    by (rule split_on_append_sep) simp
  with assms show ?thesis by (simp add: split_on_no_sep)
qed

lemma two_parts:
  "(length parts = 2 \<and> hd parts = p0) = (\<exists>p1. parts = [p0, p1])"
  by (cases parts; cases "tl parts") auto

text \<open>
  Claim C6. The function returns no context, and throws nothing (its result is a value
  in every case), when there is no \<^verbatim>\<open>authorization\<close> header, when the header does not
  split at its spaces into exactly two parts of which the first is \<^verbatim>\<open>Bearer\<close>, and when
  it does but \<^verbatim>\<open>jwtDecode\<close> throws on the second part. For a header \<^verbatim>\<open>Bearer <token>\<close>
  whose token has no space and decodes, the context has the decoded claims as \<^verbatim>\<open>user\<close>
  and the two fixed strings as \<^verbatim>\<open>identity\<close>.
\<close>

theorem C6_client_context:
  "(hdrs ''authorization'' = None \<longrightarrow> buildClientContext rt hdrs = None)
   \<and> (hdrs ''authorization'' = Some a
        \<and> \<not> (length (split_on CHR '' '' a) = 2 \<and> hd (split_on CHR '' '' a) = ''Bearer'')
      \<longrightarrow> buildClientContext rt hdrs = None)
   \<and> (hdrs ''authorization'' = Some a \<and> split_on CHR '' '' a = [''Bearer'', t]
        \<and> jwtDecode rt t = Inl e
      \<longrightarrow> buildClientContext rt hdrs = None)
   \<and> (hdrs ''authorization'' = Some (''Bearer '' @ t) \<and> CHR '' '' \<notin> set t
        \<and> jwtDecode rt t = Inr claims
      \<longrightarrow> buildClientContext rt hdrs =
            Some \<lparr>identity =
                    \<lparr>url = ''NETLIFY_LAMBDA_LOCALLY_EMULATED_IDENTITY_URL'',
                     token = ''NETLIFY_LAMBDA_LOCALLY_EMULATED_IDENTITY_TOKEN''\<rparr>,
                  user = claims\<rparr>)"
proof (intro conjI impI)
  assume "hdrs ''authorization'' = None"
  then show "buildClientContext rt hdrs = None"
    by (simp add: buildClientContext_def)
next
  assume "hdrs ''authorization'' = Some a
    \<and> \<not> (length (split_on CHR '' '' a) = 2 \<and> hd (split_on CHR '' '' a) = ''Bearer'')"
  then have a: "hdrs ''authorization'' = Some a"
    and no: "\<And>p1. split_on CHR '' '' a \<noteq> [''Bearer'', p1]"
    by (auto simp add: two_parts)
  show "buildClientContext rt hdrs = None"
  proof (cases "split_on CHR '' '' a")
    case Nil
    with a show ?thesis by (simp add: buildClientContext_def)
  next
    case (Cons p0 ps)
    with a no show ?thesis
      by (cases ps; cases "tl ps") (auto simp add: buildClientContext_def)
  qed
next
  assume "hdrs ''authorization'' = Some a \<and> split_on CHR '' '' a = [''Bearer'', t]
    \<and> jwtDecode rt t = Inl e"
  then show "buildClientContext rt hdrs = None"
    by (simp add: buildClientContext_def)
next
  assume h: "hdrs ''authorization'' = Some (''Bearer '' @ t) \<and> CHR '' '' \<notin> set t
    \<and> jwtDecode rt t = Inr claims"
  then have "split_on CHR '' '' (''Bearer '' @ t) = [''Bearer'', t]"
    using split_bearer [of t] by blast
  with h show "buildClientContext rt hdrs =
      Some \<lparr>identity =
              \<lparr>url = ''NETLIFY_LAMBDA_LOCALLY_EMULATED_IDENTITY_URL'',
               token = ''NETLIFY_LAMBDA_LOCALLY_EMULATED_IDENTITY_TOKEN''\<rparr>,
            user = claims\<rparr>"
    by (simp add: buildClientContext_def emulated_identity_def)
qed

text \<open>
  The four cases at concrete headers: none, \<^verbatim>\<open>Basic abc\<close>, \<^verbatim>\<open>Bearer nojwt\<close> and
  \<^verbatim>\<open>Bearer e30.e30.\<close>, the one token that the example runtime decodes.
\<close>

theorem C6_client_context_witness:
  "buildClientContext example_runtime Map.empty = None
   \<and> buildClientContext example_runtime [''authorization'' \<mapsto> ''Basic abc''] = None
   \<and> buildClientContext example_runtime [''authorization'' \<mapsto> ''Bearer nojwt''] = None
   \<and> buildClientContext example_runtime [''authorization'' \<mapsto> ''Bearer e30.e30.''] =
       Some \<lparr>identity =
               \<lparr>url = ''NETLIFY_LAMBDA_LOCALLY_EMULATED_IDENTITY_URL'',
                token = ''NETLIFY_LAMBDA_LOCALLY_EMULATED_IDENTITY_TOKEN''\<rparr>,
             user = JObj []\<rparr>"
proof -
  have 1: "buildClientContext example_runtime Map.empty = None"
    using C6_client_context [of Map.empty example_runtime] by simp
  have 2: "buildClientContext example_runtime [''authorization'' \<mapsto> ''Basic abc''] = None"
    using C6_client_context
      [of "[''authorization'' \<mapsto> ''Basic abc'']" example_runtime "''Basic abc''"]
    by simp
  have 3: "buildClientContext example_runtime [''authorization'' \<mapsto> ''Bearer nojwt''] = None"
    using C6_client_context
      [of "[''authorization'' \<mapsto> ''Bearer nojwt'']" example_runtime "''Bearer nojwt''"
          "''nojwt''" "JError ''InvalidTokenError'' ''Invalid token specified''"]
    by (simp add: example_runtime_def)
  have 4: "buildClientContext example_runtime [''authorization'' \<mapsto> ''Bearer e30.e30.''] =
       Some \<lparr>identity =
               \<lparr>url = ''NETLIFY_LAMBDA_LOCALLY_EMULATED_IDENTITY_URL'',
                token = ''NETLIFY_LAMBDA_LOCALLY_EMULATED_IDENTITY_TOKEN''\<rparr>,
             user = JObj []\<rparr>"
    using C6_client_context
      [of "[''authorization'' \<mapsto> ''Bearer e30.e30.'']" example_runtime _ "''e30.e30.''" _
          "JObj []"]
    by (simp add: example_runtime_def)
  from 1 2 3 4 show ?thesis by simp
qed

subsection \<open>The callback and the invocation\<close>






lemma status_500_accepted: "accepts_status rt (JNum (Fin 500))"
  by (simp add: accepts_status_def status_sent_def)

lemma handleErr_answers:
  assumes "toString rt e = Inr msg"
  shows "handleErr rt ops e =
     (None, [SetStatus (JNum (Fin 500)),
             Write (Text (NETLIFYDEVERR rt @ '' Function invocation failed: '' @ msg)),
             End])"
  using assms by (simp add: handleErr_def write_end_def status_500_accepted)










lemma ok_callback:
  "createCallback rt ops JNull ok_response =
     (None, [SetStatus (JNum (Fin 200)), Write (Text ''ok''), End])"
  by (simp add: createCallback_def ok_response_def write_end_def accepts_status_def
      status_sent_def)



text \<open>
  Why the amended claim asks for a status code that the response accepts: the guard of
  line 188 lets 1000 pass, line 208 throws on it in the reaction of the promise, and
  line 213 is not reached.
\<close>

lemma status_out_of_range_throws:
  "invoke example_runtime
     \<lparr>sync_calls = [], returns = Returned True,
      later = [Fulfilled (JObj [(''statusCode'', JNum (Fin 1000)), (''body'', JStr ''ok'')])]\<rparr>
   = \<lparr>response_ops = [SetStatus (JNum (Fin 1000))], thrown = None,
      thrown_later = [invalid_status_error example_runtime (JNum (Fin 1000))]\<rparr>"
  by (simp add: invoke_def finish_def createCallback_def write_end_def head_sent_def
      accepts_status_def status_sent_def)

text \<open>
  Claim C4 against the code. The guard of line 166 reads \<^verbatim>\<open>callbackWasCalled\<close> as soon as
  the handler has returned. A handler that returns a promise and calls the callback
  later, before the promise is fulfilled, passes the guard: no error is raised, and the
  response is written and closed by both completions.
\<close>

theorem C4_callback_after_return_not_detected:
  "invoke example_runtime
     \<lparr>sync_calls = [], returns = Returned True,
      later = [CallbackCalled JNull ok_response, Fulfilled ok_response]\<rparr>
   = \<lparr>response_ops =
        [SetStatus (JNum (Fin 200)), Write (Text ''ok''), End,
         SetStatus (JNum (Fin 200)), Write (Text ''ok''), End],
      thrown = None, thrown_later = []\<rparr>"
  by (simp add: invoke_def finish_def ok_callback)

text \<open>What the guard does catch: a callback called before the handler returns a thenable.\<close>

lemma both_detected_when_callback_synchronous:
  assumes "sync_calls run = (err, res) # calls"
    and "returns run = Returned True"
    and "\<And>x. snd (snd (run_sync rt [] (sync_calls run))) \<noteq> Some x"
  shows "thrown (invoke rt run) = Some both_error"
proof -
  obtain ops called aborted where r: "run_sync rt [] (sync_calls run) = (ops, called, aborted)"
    by (cases "run_sync rt [] (sync_calls run)") auto
  with assms(3) have "aborted = None" by (cases aborted) auto
  moreover from r assms(1) have "called"
    by (auto split: option.splits prod.splits)
  ultimately show ?thesis
    using r assms(2) by (simp add: invoke_def finish_def split: prod.splits)
qed

subsection \<open>What the callback writes\<close>




text \<open>
  Claim C3 against the code. Line 182 tests \<^verbatim>\<open>lambdaResponse === undefined\<close> only. The
  result \<^verbatim>\<open>null\<close> has no status code either, and it is what line 230 passes on every
  rejection; with a falsy \<^verbatim>\<open>err\<close>, line 188 reads a property of \<^verbatim>\<open>null\<close> and throws. For a
  handler whose promise is fulfilled with \<^verbatim>\<open>null\<close>, and for one whose promise is rejected
  with \<^verbatim>\<open>undefined\<close>, nothing is written to the response and the \<^verbatim>\<open>TypeError\<close> is thrown
  in the reaction of the promise, where nothing catches it.
\<close>

theorem C3_null_result_throws:
  "invoke example_runtime
     \<lparr>sync_calls = [], returns = Returned True, later = [Fulfilled JNull]\<rparr>
   = \<lparr>response_ops = [], thrown = None,
      thrown_later = [JError ''TypeError'' ''Cannot read property of null'']\<rparr>
   \<and> invoke example_runtime
     \<lparr>sync_calls = [], returns = Returned True, later = [Rejected JUndefined]\<rparr>
   = \<lparr>response_ops = [], thrown = None,
      thrown_later = [JError ''TypeError'' ''Cannot read property of null'']\<rparr>
   \<and> createCallback example_runtime [] JNull JNull
   = (Some (JError ''TypeError'' ''Cannot read property of null''), [])"
  by (simp add: invoke_def finish_def createCallback_def example_runtime_def)

text \<open>
  The branches of the callback that do answer: with \<^verbatim>\<open>handleErr\<close> on the error when
  \<^verbatim>\<open>err\<close> is truthy, and on the diagnostic of the case when the result is \<^verbatim>\<open>undefined\<close>,
  when it is a value with properties whose status code is missing or converts to NaN,
  and when the status code passes and the body is not a string. \<^verbatim>\<open>handleErr\<close> on a truthy
  value or a string writes status 500 and the text, and closes the response.
\<close>

lemma callback_failure_branches:
  "(truthy err \<longrightarrow> createCallback rt ops err res = handleErr rt ops err)
   \<and> (\<not> truthy err \<longrightarrow>
        createCallback rt ops err JUndefined =
          handleErr rt ops
            (JStr ''lambda response was undefined. check your function code again.''))
   \<and> (\<not> truthy err \<and> res \<noteq> JUndefined \<and> res \<noteq> JNull
        \<and> (property res ''statusCode'' = JUndefined
            \<or> Number rt (property res ''statusCode'') = NaN)
      \<longrightarrow> createCallback rt ops err res =
            handleErr rt ops (JStr ''Incorrect function response statusCode''))
   \<and> (\<not> truthy err \<and> res \<noteq> JUndefined \<and> res \<noteq> JNull
        \<and> truthy_num (Number rt (property res ''statusCode''))
        \<and> \<not> is_string (property res ''body'')
      \<longrightarrow> createCallback rt ops err res =
            handleErr rt ops (JStr ''Incorrect function response body''))
   \<and> (truthy e \<or> is_string e \<longrightarrow>
        handleErr rt ops e =
          (None,
           [SetStatus (JNum (Fin 500)),
            Write (Text (NETLIFYDEVERR rt @ '' Function invocation failed: ''
                          @ string_form rt e)),
            End]))"
proof -
  have "toString rt e = Inr (string_form rt e)" if "truthy e \<or> is_string e"
    using that by (cases e) auto
  then show ?thesis
    by (auto simp add: createCallback_def handleErr_answers)
qed

lemma null_result_throws:
  "\<not> truthy err \<Longrightarrow> createCallback rt ops err JNull = (Some (null_property_error rt), [])"
  by (simp add: createCallback_def)

text \<open>
  Where \<^verbatim>\<open>handleErr\<close> itself throws: line 24 calls \<^verbatim>\<open>toString\<close> on the error, after line 22
  has set the status code. A module that throws \<^verbatim>\<open>null\<close> when it is loaded gets there.
\<close>

lemma handleErr_on_null_throws:
  "handleErr rt ops JNull = (Some (null_property_error rt), [SetStatus (JNum (Fin 500))])"
  by (simp add: handleErr_def)

subsection \<open>The module search path\<close>

text \<open>
  Loading a handler leaves \<^verbatim>\<open>module.paths\<close> as it found it, whether \<^verbatim>\<open>require\<close> throws, the
  module has no \<^verbatim>\<open>handler\<close>, or the load succeeds; so does the request function as a
  whole. The watcher's callback does when \<^verbatim>\<open>require.resolve\<close> returns.
\<close>

lemma require_keeps_paths: "module_paths (snd (require rt p st)) = module_paths st"
  by (simp add: require_def split: option.splits sum.splits)

lemma load_handler_restores_paths:
  "module_paths (snd (load_handler rt fp md st)) = module_paths st"
  by (simp add: load_handler_def Let_def split: prod.splits sum.splits module_exports.splits
      option.splits)

lemma clearCache_restores_paths_when_resolved:
  "require_resolve rt (functionPath fn) = Inr resolved \<Longrightarrow>
   clearCache rt fn st =
     (None, st\<lparr>require_cache := (require_cache st)(resolved := None)\<rparr>)"
  by (simp add: clearCache_def Let_def)

lemma serve_keeps_paths: "module_paths (snd (serve rt fns rq st)) = module_paths st"
proof -
  have loaded: "module_paths (snd (case load_handler rt fp md st of
          (Inl error, st') \<Rightarrow>
            (case handleErr rt [] error of
               (x, ops) \<Rightarrow> (\<lparr>response_ops = ops, thrown = x, thrown_later = []\<rparr>, st'))
        | (Inr h, st') \<Rightarrow> (invoke rt (h lr ctx), st'))) = module_paths st"
    for fp md lr ctx
  proof -
    obtain r st' where l: "load_handler rt fp md st = (r, st')"
      by (cases "load_handler rt fp md st") auto
    with load_handler_restores_paths [of rt fp md st]
    have "module_paths st' = module_paths st" by simp
    with l show ?thesis by (cases r) (simp_all split: prod.splits)
  qed
  show ?thesis
    by (cases "functions_lookup fns (func_of (req_path rq))")
       (simp_all add: serve_def loaded)
qed

text \<open>
  Claim C7 against the code. Lines 89 to 92 have no \<^verbatim>\<open>try\<close>: when \<^verbatim>\<open>require.resolve\<close>
  throws, as it does for a file that is gone, the exception leaves the callback before
  line 92, and \<^verbatim>\<open>module.paths\<close> stays the one-element list of the handler's module
  directory.
\<close>

theorem C7_eviction_leaves_paths_swapped:
  "clearCache example_runtime hello_entry example_state =
     (Some (JError ''Error'' ''Cannot find module /site/functions/hello.js''),
      \<lparr>module_paths = [Some ''/site''], require_cache = Map.empty\<rparr>)"
  by (simp add: clearCache_def example_runtime_def hello_entry_def example_state_def)

subsection \<open>Dispatch\<close>

text \<open>
  A name that is neither a property of \<^verbatim>\<open>functions\<close> nor one of \<^verbatim>\<open>Object.prototype\<close> is
  answered with 404, and the module system is not touched.
\<close>

lemma unknown_name_not_found:
  assumes "fns (case func_of (req_path rq) of None \<Rightarrow> ''undefined'' | Some f \<Rightarrow> f) = None"
    and "(case func_of (req_path rq) of None \<Rightarrow> ''undefined'' | Some f \<Rightarrow> f)
           \<notin> set object_prototype_names"
  shows "serve rt fns rq st =
     (\<lparr>response_ops = [SetStatus (JNum (Fin 404)), EndWith (Text ''Function not found...'')],
       thrown = None, thrown_later = []\<rparr>, st)"
  using assms by (simp add: serve_def functions_lookup_def not_found_def)

text \<open>
  Claim C8 against the code. \<^verbatim>\<open>constructor\<close> is no key of the registry, here the empty
  one, but \<^verbatim>\<open>functions["constructor"]\<close> is the function \<^verbatim>\<open>Object\<close>, which is truthy: the
  request is not answered with 404, \<^verbatim>\<open>require\<close> is called with \<^verbatim>\<open>undefined\<close>, and the
  answer is the 500 of the \<^verbatim>\<open>catch\<close>.
\<close>

theorem C8_inherited_name_is_not_404:
  "serve example_runtime Map.empty
     \<lparr>req_path = ''/constructor'', req_method = ''GET'', req_url = ''/constructor'',
      req_headers = Map.empty, req_body = NoBody\<rparr>
     example_state
   = (\<lparr>response_ops =
         [SetStatus (JNum (Fin 500)),
          Write (Text (''NETLIFYDEVERR Function invocation failed: ''
                  @ ''TypeError: The id argument must be of type string. Received undefined'')),
          End],
       thrown = None, thrown_later = []\<rparr>,
      example_state)"
  by (simp add: serve_def functions_lookup_def func_of_def cleanPath_def starts_with_def
      object_prototype_names_def load_handler_def require_def handleErr_def write_end_def
      head_sent_def accepts_status_def status_sent_def example_runtime_def
      example_state_def)

text \<open>
  Claim C9 against the code. Line 60 compares \<^verbatim>\<open>dir\<close>, the directory scanned, with
  \<^verbatim>\<open>"node_modules"\<close>, not the entry \<^verbatim>\<open>file\<close>: an entry \<^verbatim>\<open>node_modules\<close> in which
  \<^verbatim>\<open>findHandler\<close> finds an entry point is registered like any other directory.
\<close>

theorem C9_node_modules_child_registered:
  "scan_functions example_filesystem ''functions'' ''node_modules'' =
     Some \<lparr>functionPath = ''/site/functions/node_modules/node_modules.js'',
           moduleDir = Some ''/site''\<rparr>
   \<and> scan_functions example_filesystem ''functions'' ''hello'' = Some hello_entry"
  by (simp add: scan_functions_def scan_entry_def example_filesystem_def extname_def
      strip_js_def hello_entry_def)

text \<open>What line 60 does skip: every entry, when the directory scanned is \<^verbatim>\<open>node_modules\<close>.\<close>

lemma scan_of_node_modules_dir_is_empty:
  "scan_functions fs ''node_modules'' = Map.empty"
proof -
  have "foldl (scan_entry fs ''node_modules'') fns files = fns" for fns files
    by (induction files arbitrary: fns) (simp_all add: scan_entry_def)
  then show ?thesis by (simp add: scan_functions_def)
qed

lemma func_of_plain:
  assumes "f \<noteq> []" and "CHR ''/'' \<notin> set f"
  shows "func_of (CHR ''/'' # f) = Some f"
proof -
  have "cleanPath (CHR ''/'' # f) = CHR ''/'' # f"
  proof (cases f)
    case Nil
    then show ?thesis by (simp add: cleanPath_def)
  next
    case (Cons c1 rest)
    have "\<not> starts_with ''netlify/functions'' rest"
    proof
      assume "starts_with ''netlify/functions'' rest"
      then have t: "take (length ''netlify/functions'') rest = ''netlify/functions''"
        unfolding starts_with_def .
      have "CHR ''/'' \<in> set (take (length ''netlify/functions'') rest)"
        by (subst t) simp
      then have "CHR ''/'' \<in> set rest" by (rule in_set_takeD)
      with Cons assms(2) show False by simp
    qed
    with Cons show ?thesis by (simp add: cleanPath_def)
  qed
  with assms show ?thesis by (simp add: func_of_def split_on_no_sep)
qed

text \<open>
  Claim C10. The path of a request is taken from the request line, which holds no line
  feed and no carriage return, and is not decoded: every character of it is one that the
  dot matches. For a name that can be a file name (not empty, no slash) and any such
  character \<open>c\<close>, the paths \<^verbatim>\<open>/<c>netlify/functions/<name>\<close>, \<^verbatim>\<open>/.netlify/functions/<name>\<close>
  and \<^verbatim>\<open>/<name>\<close> all give the handler name \<^verbatim>\<open><name>\<close>, which is all the dispatch
  depends on.
\<close>

theorem C10_dot_matches_any_character:
  assumes "\<not> line_terminator c" and "f \<noteq> []" and "CHR ''/'' \<notin> set f"
  shows "func_of (CHR ''/'' # c # ''netlify/functions/'' @ f) = Some f
         \<and> func_of (''/.netlify/functions/'' @ f) = Some f
         \<and> func_of (CHR ''/'' # f) = Some f"
proof -
  have strip: "cleanPath (CHR ''/'' # d # ''netlify/functions/'' @ f) = CHR ''/'' # f"
    if "\<not> line_terminator d" for d
    using that by (simp add: cleanPath_def starts_with_def)
  have plain: "func_of (CHR ''/'' # f) = Some f"
    using assms(2,3) by (rule func_of_plain)
  then have seg: "filter (\<lambda>e. e \<noteq> []) (split_on CHR ''/'' (CHR ''/'' # f)) = [f]"
    using assms by (simp add: split_on_no_sep)
  have dot: "\<not> line_terminator CHR ''.''" by (simp add: line_terminator_def)
  from strip [OF assms(1)] strip [OF dot] seg plain show ?thesis
    by (simp add: func_of_def)
qed

text \<open>The theorem at the character \<^verbatim>\<open>x\<close> and the name \<^verbatim>\<open>hello\<close>.\<close>

theorem C10_dot_matches_any_character_witness:
  "func_of ''/xnetlify/functions/hello'' = Some ''hello''
   \<and> func_of ''/.netlify/functions/hello'' = Some ''hello''
   \<and> func_of ''/hello'' = Some ''hello''"
  using C10_dot_matches_any_character [of "CHR ''x''" "''hello''"]
  by (simp add: line_terminator_def)

end
